theory Spec2Isabelle
  imports Main "HOL-Library.Word"
begin

section \<open>The Maestro Go SDK: data model\<close>

text \<open>
  The embedding follows \<^verbatim>\<open>maestro.go\<close>, the revision with the per-identifier
  \<^verbatim>\<open>Query(id)\<close>. Go strings are byte sequences and are modelled as \<open>string\<close>;
  \<^verbatim>\<open>time.Duration\<close> is an \<^verbatim>\<open>int64\<close> count of nanoseconds and is modelled as a
  64-bit word read with \<open>sint\<close>; Go's \<^verbatim>\<open>int\<close> status code is never computed with
  and is modelled as \<open>int\<close>.
\<close>

type_synonym Duration = "64 word"

definition Millisecond :: Duration where
  "Millisecond = 1000000"

definition Second :: Duration where
  "Second = 1000000000"

text \<open>A Go \<^verbatim>\<open>error\<close> value is modelled by the text its \<^verbatim>\<open>Error()\<close> method returns.\<close>

datatype error = Error (message: string)

text \<open>\<^verbatim>\<open>*http.Transport\<close> is opaque to the SDK: it is only stored and handed on.\<close>

typedecl http_Transport

text \<open>The two fields of \<^verbatim>\<open>http.Client\<close> that \<^verbatim>\<open>New\<close> sets.\<close>

record http_Client =
  Timeout :: Duration
  Transport :: "http_Transport option"

record Registrant =
  Id :: string
  Address :: string

record ClientConfig =
  Timeout :: Duration
  Transport :: "http_Transport option"

record Client =
  BaseUrl :: string
  AuthToken :: string
  Id :: string
  Client :: http_Client

type_synonym Route = string

definition authHeader :: string where
  "authHeader = ''X-Registry-Token''"

definition apiPrefix :: string where
  "apiPrefix = ''/api/v1''"

definition register :: Route where
  "register = ''/register''"

definition deregister :: Route where
  "deregister = ''/deregister''"

definition ping :: Route where
  "ping = ''/ping''"

definition query :: Route where
  "query = ''/query?id=%s''"

section \<open>Library functions the SDK calls\<close>

subsection \<open>\<^verbatim>\<open>strings.TrimSuffix\<close>\<close>

definition HasSuffix :: "string \<Rightarrow> string \<Rightarrow> bool" where
  "HasSuffix s suffix \<longleftrightarrow>
     length s \<ge> length suffix \<and> drop (length s - length suffix) s = suffix"

definition TrimSuffix :: "string \<Rightarrow> string \<Rightarrow> string" where
  "TrimSuffix s suffix =
     (if HasSuffix s suffix then take (length s - length suffix) s else s)"

subsection \<open>\<^verbatim>\<open>fmt.Sprintf\<close> and \<^verbatim>\<open>fmt.Errorf\<close>\<close>

text \<open>
  The SDK passes strings and one \<^verbatim>\<open>int\<close> to the formatter. An \<^verbatim>\<open>int\<close> under
  \<^verbatim>\<open>%d\<close> prints as \<^verbatim>\<open>strconv.Itoa\<close> writes it: decimal digits, most significant
  first, with a leading minus sign for a negative number.
\<close>

datatype operand = StringArg string | IntArg int

fun FormatUint :: "nat \<Rightarrow> string" where
  "FormatUint n =
     (if n < 10 then [''0123456789'' ! n]
      else FormatUint (n div 10) @ [''0123456789'' ! (n mod 10)])"

declare FormatUint.simps [simp del]

definition Itoa :: "int \<Rightarrow> string" where
  "Itoa i = (if i < 0 then CHR ''-'' # FormatUint (nat (- i)) else FormatUint (nat i))"

text \<open>The operand under \<^verbatim>\<open>%v\<close>, and the name of its type as the formatter prints it.\<close>

fun fmt_v :: "operand \<Rightarrow> string" where
  "fmt_v (StringArg s) = s"
| "fmt_v (IntArg i) = Itoa i"

fun typeString :: "operand \<Rightarrow> string" where
  "typeString (StringArg s) = ''string''"
| "typeString (IntArg i) = ''int''"

text \<open>\<^verbatim>\<open>badVerb\<close>: a verb the operand's type does not support prints \<^verbatim>\<open>%!verb(type=value)\<close>.\<close>

definition badVerb :: "char \<Rightarrow> operand \<Rightarrow> string" where
  "badVerb verb arg = ''%!'' @ [verb] @ ''('' @ typeString arg @ ''='' @ fmt_v arg @ '')''"

text \<open>\<^verbatim>\<open>missingArg\<close>: a verb with no operand left prints \<^verbatim>\<open>%!verb(MISSING)\<close>.\<close>

definition missingArg :: "char \<Rightarrow> string" where
  "missingArg verb = ''%!'' @ [verb] @ ''(MISSING)''"

definition isLetter :: "char \<Rightarrow> bool" where
  "isLetter c \<longleftrightarrow>
     (let n = (of_char c :: nat) in (97 \<le> n \<and> n \<le> 122) \<or> (65 \<le> n \<and> n \<le> 90))"

text \<open>
  \<^verbatim>\<open>printArg\<close> for a directive that is a percent sign followed at once by a letter.
  A string prints itself under \<^verbatim>\<open>%s\<close> and \<^verbatim>\<open>%v\<close>; an int prints in decimal under
  \<^verbatim>\<open>%d\<close> and \<^verbatim>\<open>%v\<close>. The verbs with an output of their own that the SDK never
  uses (\<^verbatim>\<open>q x X T p w\<close> for a string, every verb but \<^verbatim>\<open>d v\<close> for an int) are
  not spelled out: the result is \<open>None\<close>. Every other letter is a bad verb for a string.
\<close>

fun printArg :: "operand \<Rightarrow> char \<Rightarrow> string option" where
  "printArg (StringArg s) verb =
     (if verb = CHR ''s'' \<or> verb = CHR ''v'' then Some s
      else if verb \<in> set ''qxXTpw'' then None
      else Some (badVerb verb (StringArg s)))"
| "printArg (IntArg i) verb =
     (if verb = CHR ''d'' \<or> verb = CHR ''v'' then Some (Itoa i) else None)"

text \<open>Operands left over when the format ends: \<^verbatim>\<open>%!(EXTRA type=value, ...)\<close>.\<close>

fun commaSep :: "string list \<Rightarrow> string" where
  "commaSep [] = []"
| "commaSep [x] = x"
| "commaSep (x # y # ys) = x @ '', '' @ commaSep (y # ys)"

definition extraArgs :: "operand list \<Rightarrow> string" where
  "extraArgs a =
     (if a = [] then []
      else ''%!(EXTRA '' @ commaSep (map (\<lambda>x. typeString x @ ''='' @ fmt_v x) a) @ '')'')"

text \<open>
  \<^verbatim>\<open>doPrintf\<close>: text up to a percent sign is copied; \<^verbatim>\<open>%%\<close> prints a percent sign
  and takes no operand; a percent sign at the end of the format prints
  \<^verbatim>\<open>%!(NOVERB)\<close>; a letter is a verb for the next operand. A directive with flags,
  a width, a precision or an argument index, none of which the SDK's own format
  strings have, is left to \<open>other\<close>, which stands for the library on the rest of the
  format with the operands not yet used.
\<close>

fun doPrintf :: "(string \<Rightarrow> operand list \<Rightarrow> string) \<Rightarrow> string \<Rightarrow> operand list \<Rightarrow> string" where
  "doPrintf other [] a = extraArgs a"
| "doPrintf other (c # fmt) a =
     (if c \<noteq> CHR ''%'' then c # doPrintf other fmt a
      else (case fmt of
          [] \<Rightarrow> ''%!(NOVERB)'' @ extraArgs a
        | verb # fmt' \<Rightarrow>
            (if verb = CHR ''%'' then CHR ''%'' # doPrintf other fmt' a
             else if \<not> isLetter verb then other (c # fmt) a
             else (case a of
                 [] \<Rightarrow> missingArg verb @ doPrintf other fmt' []
               | arg # a' \<Rightarrow>
                   (case printArg arg verb of
                      None \<Rightarrow> other (c # fmt) a
                    | Some s \<Rightarrow> s @ doPrintf other fmt' a')))))"

subsection \<open>\<^verbatim>\<open>net/http\<close> and \<^verbatim>\<open>encoding/json\<close>\<close>

record Request =
  Method :: string
  URL :: string
  Header :: "(string \<times> string) list"
  Body :: "string option"

record Response =
  StatusCode :: int
  Body :: string

text \<open>
  What the program does to the outside, in order: a request handed to
  \<^verbatim>\<open>c.Client.Do\<close>, a response body closed, a line written by \<^verbatim>\<open>fmt.Println\<close>
  (the line without its newline).
\<close>

datatype event = DoRequest Request | BodyClosed | Println string

type_synonym world = "event list"

text \<open>
  The library and the network are parameters of the model: the JSON text of a string
  value (its quoting and escaping), JSON decoding into a \<^verbatim>\<open>Registrant\<close> (the decoder
  writes into the value it is given and may fail half-way), the checks of
  \<^verbatim>\<open>http.NewRequest\<close> on the method and the URL, the round trip \<^verbatim>\<open>Do\<close>, whose
  answer may depend on the HTTP client's settings and on everything that happened
  before, and the formatter on directives that \<open>doPrintf\<close> does not spell out.
\<close>

record env =
  json_string :: "string \<Rightarrow> string"
  json_Decode :: "string \<Rightarrow> Registrant \<Rightarrow> Registrant \<times> error option"
  NewRequest_error :: "string \<Rightarrow> string \<Rightarrow> error option"
  Do :: "http_Client \<Rightarrow> world \<Rightarrow> Request \<Rightarrow> error + Response"
  fmt_other :: "string \<Rightarrow> operand list \<Rightarrow> string"

text \<open>
  \<^verbatim>\<open>json.Marshal\<close> of a \<^verbatim>\<open>Registrant\<close>: an object with the two fields in the order
  of the struct, under the names of their tags \<^verbatim>\<open>json:"id"\<close> and
  \<^verbatim>\<open>json:"address"\<close>, without white space. Encoding a struct of two strings cannot
  fail, so the result is never an error.
\<close>

definition json_Marshal :: \<open>env \<Rightarrow> Registrant \<Rightarrow> error + string\<close> where
  \<open>json_Marshal E reg =
     Inr (''{"id":'' @ json_string E (Registrant.Id reg) @
          '',"address":'' @ json_string E (Address reg) @ ''}'')\<close>

definition Sprintf :: "env \<Rightarrow> string \<Rightarrow> operand list \<Rightarrow> string" where
  "Sprintf E format a = doPrintf (fmt_other E) format a"

definition Errorf :: "env \<Rightarrow> string \<Rightarrow> operand list \<Rightarrow> error" where
  "Errorf E format a = Error (Sprintf E format a)"

definition MethodGet :: string where
  "MethodGet = ''GET''"

definition MethodPost :: string where
  "MethodPost = ''POST''"

definition MethodPut :: string where
  "MethodPut = ''PUT''"

definition MethodDelete :: string where
  "MethodDelete = ''DELETE''"

definition NewRequest :: "env \<Rightarrow> string \<Rightarrow> string \<Rightarrow> string option \<Rightarrow> error + Request" where
  "NewRequest E method url body =
     (case NewRequest_error E method url of
        Some err \<Rightarrow> Inl err
      | None \<Rightarrow> Inr \<lparr>Method = method, URL = url, Header = [], Body = body\<rparr>)"

section \<open>The SDK\<close>

subsection \<open>\<^verbatim>\<open>New\<close>, \<^verbatim>\<open>getUrl\<close>, \<^verbatim>\<open>addAuthHeader\<close>\<close>

text \<open>
  \<^verbatim>\<open>config\<close> is a pointer that may be nil: an \<open>option\<close>. The function has no
  failing branch, and neither \<^verbatim>\<open>strings.TrimSuffix\<close> nor the struct literals can
  panic, so the model is a plain total function.
\<close>

definition New :: "string \<Rightarrow> string \<Rightarrow> string \<Rightarrow> ClientConfig option \<Rightarrow> Client" where
  "New baseUrl token ident config =
     (let httpClient = \<lparr>http_Client.Timeout = 3 * Second, Transport = None\<rparr>;
          httpClient =
            (case config of
               None \<Rightarrow> httpClient
             | Some cfg \<Rightarrow>
                 (let httpClient =
                        (if 10 * Millisecond <s Timeout cfg
                         then httpClient\<lparr>http_Client.Timeout := Timeout cfg\<rparr>
                         else httpClient)
                  in (case Transport cfg of
                        Some tr \<Rightarrow> httpClient\<lparr>http_Client.Transport := Some tr\<rparr>
                      | None \<Rightarrow> httpClient)))
      in \<lparr>BaseUrl = TrimSuffix baseUrl ''/'', AuthToken = token, Id = ident,
          Client = httpClient\<rparr>)"

definition getUrl :: "Client \<Rightarrow> Route \<Rightarrow> string" where
  "getUrl c r = BaseUrl c @ apiPrefix @ r"

text \<open>\<^verbatim>\<open>Header.Add\<close> appends; the header name is already in canonical form.\<close>

definition addAuthHeader :: "Client \<Rightarrow> Request \<Rightarrow> Request" where
  "addAuthHeader c r = r\<lparr>Header := Header r @ [(authHeader, AuthToken c)]\<rparr>"

text \<open>The error built from a response status of 400 or more, the same in three methods.\<close>

definition statusError :: "env \<Rightarrow> int \<Rightarrow> error" where
  "statusError E code = Errorf E ''received non-success status code (%d)'' [IntArg code]"

subsection \<open>\<^verbatim>\<open>Register\<close> and \<^verbatim>\<open>Deregister\<close>\<close>

text \<open>
  Each method returns its \<^verbatim>\<open>error\<close> (\<open>None\<close> is nil) and the events it added. The
  deferred \<^verbatim>\<open>resp.Body.Close()\<close> runs when the method returns with a response.
\<close>

definition Register :: "env \<Rightarrow> Client \<Rightarrow> string \<Rightarrow> world \<Rightarrow> error option \<times> world" where
  "Register E c address w =
     (let reg = \<lparr>Registrant.Id = Id c, Address = address\<rparr> in
      case json_Marshal E reg of
        Inl err \<Rightarrow> (Some err, w)
      | Inr regJson \<Rightarrow>
          (case NewRequest E MethodPost (getUrl c register) (Some regJson) of
             Inl err \<Rightarrow> (Some err, w)
           | Inr req0 \<Rightarrow>
               (let req = addAuthHeader c req0 in
                case Do E (Client c) w req of
                  Inl err \<Rightarrow> (Some err, w @ [DoRequest req])
                | Inr resp \<Rightarrow>
                    (if StatusCode resp \<ge> 400
                     then (Some (statusError E (StatusCode resp)), w @ [DoRequest req, BodyClosed])
                     else (None, w @ [DoRequest req, BodyClosed])))))"

definition Deregister :: "env \<Rightarrow> Client \<Rightarrow> world \<Rightarrow> error option \<times> world" where
  "Deregister E c w =
     (let reg = \<lparr>Registrant.Id = Id c, Address = ''''\<rparr> in
      case json_Marshal E reg of
        Inl err \<Rightarrow> (Some err, w)
      | Inr regJson \<Rightarrow>
          (case NewRequest E MethodDelete (getUrl c deregister) (Some regJson) of
             Inl err \<Rightarrow> (Some err, w)
           | Inr req0 \<Rightarrow>
               (let req = addAuthHeader c req0 in
                case Do E (Client c) w req of
                  Inl err \<Rightarrow> (Some err, w @ [DoRequest req])
                | Inr resp \<Rightarrow>
                    (if StatusCode resp \<ge> 400
                     then (Some (statusError E (StatusCode resp)), w @ [DoRequest req, BodyClosed])
                     else (None, w @ [DoRequest req, BodyClosed])))))"

subsection \<open>\<^verbatim>\<open>Ping\<close> and \<^verbatim>\<open>StartPing\<close>\<close>

text \<open>\<^verbatim>\<open>Ping\<close> sends no body and does not close the response body.\<close>

definition Ping :: "env \<Rightarrow> Client \<Rightarrow> world \<Rightarrow> error option \<times> world" where
  "Ping E c w =
     (case NewRequest E MethodPut
             (Sprintf E ''%s?id=%s'' [StringArg (getUrl c ping), StringArg (Id c)]) None of
        Inl err \<Rightarrow> (Some err, w)
      | Inr req0 \<Rightarrow>
          (let req = addAuthHeader c req0 in
           case Do E (Client c) w req of
             Inl err \<Rightarrow> (Some err, w @ [DoRequest req])
           | Inr resp \<Rightarrow>
               (if StatusCode resp \<ge> 400
                then (Some (statusError E (StatusCode resp)), w @ [DoRequest req])
                else (None, w @ [DoRequest req]))))"

text \<open>
  \<^verbatim>\<open>time.NewTicker\<close> panics unless the interval is positive. A ticker runs until
  its \<^verbatim>\<open>Stop\<close> method is called; \<open>stopped\<close> records whether it was.
\<close>

record Ticker =
  period :: Duration
  stopped :: bool

definition NewTicker :: "Duration \<Rightarrow> Ticker option" where
  "NewTicker interval =
     (if sint interval \<le> 0 then None else Some \<lparr>period = interval, stopped = False\<rparr>)"

text \<open>
  One pass of the \<^verbatim>\<open>for\<close> loop runs one \<^verbatim>\<open>select\<close>, which takes the case
  \<^verbatim>\<open><-ctx.Done()\<close>, the case \<^verbatim>\<open><-t.C\<close>, or \<^verbatim>\<open>default\<close> when neither channel is
  ready. Which case each pass takes is decided outside the program (by the clock,
  by the caller's cancel function, and by the runtime when both channels are
  ready), so the loop is run on the list of the cases taken, one per pass. Every
  list is admitted, so what holds for all lists holds for the runs that can happen.
\<close>

datatype select_case = CtxDone | TickC | Default

text \<open>
  \<open>Returned\<close>: the loop took \<^verbatim>\<open>return\<close>. \<open>Running\<close>: every pass listed was made and
  the loop is still going. \<open>Panicked\<close>: \<^verbatim>\<open>time.NewTicker\<close> panicked.
\<close>

datatype outcome = Returned | Running | Panicked

text \<open>The body of \<^verbatim>\<open>case <-t.C\<close>: one \<^verbatim>\<open>Ping\<close>; an error is printed and dropped.\<close>

definition tick :: "env \<Rightarrow> Client \<Rightarrow> world \<Rightarrow> world" where
  "tick E c w =
     (case Ping E c w of
        (Some err, w') \<Rightarrow> w' @ [Println (''ping error: '' @ message err)]
      | (None, w') \<Rightarrow> w')"

fun pingLoop :: "env \<Rightarrow> Client \<Rightarrow> Ticker \<Rightarrow> select_case list \<Rightarrow> world \<Rightarrow> outcome \<times> Ticker \<times> world" where
  "pingLoop E c t [] w = (Running, t, w)"
| "pingLoop E c t (CtxDone # cases) w = (Returned, t, w)"
| "pingLoop E c t (TickC # cases) w = pingLoop E c t cases (tick E c w)"
| "pingLoop E c t (Default # cases) w = pingLoop E c t cases w"

definition StartPing :: "env \<Rightarrow> Client \<Rightarrow> Duration \<Rightarrow> select_case list \<Rightarrow> world \<Rightarrow> outcome \<times> Ticker option \<times> world" where
  "StartPing E c interval cases w =
     (case NewTicker interval of
        None \<Rightarrow> (Panicked, None, w)
      | Some t \<Rightarrow> (case pingLoop E c t cases w of (out, t', w') \<Rightarrow> (out, Some t', w')))"

subsection \<open>\<^verbatim>\<open>Query\<close>\<close>

text \<open>
  \<^verbatim>\<open>Query\<close> returns a \<^verbatim>\<open>Registrant\<close> and an \<^verbatim>\<open>error\<close> side by side, as the Go
  function does. The format string of its \<^verbatim>\<open>Sprintf\<close> is the whole URL that
  \<^verbatim>\<open>getUrl\<close> builds, not the route alone.
\<close>

definition zeroRegistrant :: Registrant where
  "zeroRegistrant = \<lparr>Registrant.Id = '''', Address = ''''\<rparr>"

definition Query :: "env \<Rightarrow> Client \<Rightarrow> string \<Rightarrow> world \<Rightarrow> (Registrant \<times> error option) \<times> world" where
  "Query E c ident w =
     (case NewRequest E MethodGet (Sprintf E (getUrl c query) [StringArg ident]) None of
        Inl err \<Rightarrow>
          ((zeroRegistrant,
            Some (Errorf E ''could not create request: %s'' [StringArg (message err)])), w)
      | Inr req0 \<Rightarrow>
          (let req = addAuthHeader c req0 in
           case Do E (Client c) w req of
             Inl err \<Rightarrow>
               ((zeroRegistrant,
                 Some (Errorf E ''could not execute query request: %s'' [StringArg (message err)])),
                w @ [DoRequest req])
           | Inr resp \<Rightarrow>
               (case json_Decode E (Response.Body resp) zeroRegistrant of
                  (entry, Some err) \<Rightarrow>
                    ((zeroRegistrant,
                      Some (Errorf E ''could not decode JSON: %s'' [StringArg (message err)])),
                     w @ [DoRequest req, BodyClosed])
                | (entry, None) \<Rightarrow> ((entry, None), w @ [DoRequest req, BodyClosed]))))"

subsection \<open>The earlier revision of \<^verbatim>\<open>New\<close> and \<^verbatim>\<open>ping\<close>\<close>

text \<open>
  The repository's second source file is an earlier revision of the same package. Its
  \<^verbatim>\<open>New\<close> takes the configured timeout as it is, and its \<^verbatim>\<open>ping\<close> sends no
  identifier. They are embedded under their own names; everything else in this theory
  is about \<^verbatim>\<open>maestro.go\<close>.
\<close>

definition New_part_000 :: "string \<Rightarrow> string \<Rightarrow> string \<Rightarrow> ClientConfig option \<Rightarrow> Client" where
  "New_part_000 baseUrl token ident config =
     (let httpClient = \<lparr>http_Client.Timeout = 3 * Second, Transport = None\<rparr>;
          httpClient =
            (case config of
               None \<Rightarrow> httpClient
             | Some cfg \<Rightarrow>
                 (let httpClient = httpClient\<lparr>http_Client.Timeout := Timeout cfg\<rparr>
                  in (case Transport cfg of
                        Some tr \<Rightarrow> httpClient\<lparr>http_Client.Transport := Some tr\<rparr>
                      | None \<Rightarrow> httpClient)))
      in \<lparr>BaseUrl = TrimSuffix baseUrl ''/'', AuthToken = token, Id = ident,
          Client = httpClient\<rparr>)"

definition ping_part_000 :: "env \<Rightarrow> Client \<Rightarrow> world \<Rightarrow> error option \<times> world" where
  "ping_part_000 E c w =
     (case NewRequest E MethodPut (getUrl c ping) None of
        Inl err \<Rightarrow> (Some err, w)
      | Inr req0 \<Rightarrow>
          (let req = addAuthHeader c req0 in
           case Do E (Client c) w req of
             Inl err \<Rightarrow> (Some err, w @ [DoRequest req])
           | Inr resp \<Rightarrow>
               (if StatusCode resp \<ge> 400
                then (Some (statusError E (StatusCode resp)), w @ [DoRequest req])
                else (None, w @ [DoRequest req]))))"

section \<open>Observing a run\<close>

text \<open>The requests handed to \<^verbatim>\<open>Do\<close>, in order.\<close>

fun requests :: "world \<Rightarrow> Request list" where
  "requests [] = []"
| "requests (DoRequest r # w) = r # requests w"
| "requests (BodyClosed # w) = requests w"
| "requests (Println l # w) = requests w"

text \<open>
  A stand-in for the library and the registry, to run the model on concrete inputs:
  a string value is written between double quotes as it is (right for a string that
  needs no escaping), the decoder knows one document, fails on a second one after it
  has written the field before the ill-typed one, and otherwise fails without writing,
  \<^verbatim>\<open>http.NewRequest\<close> rejects a URL with a DEL byte, and every round trip has the
  same given result.
\<close>

definition stubDecode :: \<open>string \<Rightarrow> Registrant \<Rightarrow> Registrant \<times> error option\<close> where
  \<open>stubDecode body entry =
     (if body = ''{"id":"svc-b","address":"http://10.0.0.2:9000"}''
      then (\<lparr>Registrant.Id = ''svc-b'', Address = ''http://10.0.0.2:9000''\<rparr>, None)
      else if body = ''{"id":"svc","address":5}''
      then (entry\<lparr>Registrant.Id := ''svc''\<rparr>,
            Some (Error (''json: cannot unmarshal number into Go struct field '' @
                         ''Registrant.address of type string'')))
      else (entry, Some (Error ''unexpected EOF'')))\<close>

definition stubEnv :: \<open>error + Response \<Rightarrow> env\<close> where
  \<open>stubEnv answer =
     \<lparr>json_string = (\<lambda>s. ''"'' @ s @ ''"''),
      json_Decode = stubDecode,
      NewRequest_error =
        (\<lambda>method url. if CHR 0x7F \<in> set url
           then Some (Error ''net/url: invalid control character in URL'') else None),
      Do = (\<lambda>hc w req. answer),
      fmt_other = (\<lambda>format a. [])\<rparr>\<close>

definition svc :: Client where
  "svc = New ''http://svc:8080/'' ''secret'' ''svc-a'' None"

lemmas stub_defs = stubEnv_def stubDecode_def svc_def New_def Let_def json_Marshal_def
  TrimSuffix_def HasSuffix_def getUrl_def apiPrefix_def register_def deregister_def
  ping_def query_def MethodPost_def MethodGet_def MethodPut_def MethodDelete_def

section \<open>Facts about the library functions\<close>

lemma Sprintf_ping: "Sprintf E ''%s?id=%s'' [StringArg a, StringArg b] = a @ ''?id='' @ b"
  by (simp add: Sprintf_def isLetter_def extraArgs_def)

lemma statusError_message:
  "statusError E code = Error (''received non-success status code ('' @ Itoa code @ '')'')"
  by (simp add: statusError_def Errorf_def Sprintf_def isLetter_def extraArgs_def)

lemma requests_append: "requests (w @ v) = requests w @ requests v"
  by (induction w rule: requests.induct) simp_all

lemma doPrintf_plain:
  "CHR ''%'' \<notin> set s \<Longrightarrow> doPrintf other (s @ format) a = s @ doPrintf other format a"
  by (induction s) auto

lemma TrimSuffix_slash:
  "TrimSuffix s [x] = (if s \<noteq> [] \<and> last s = x then butlast s else s)"
  by (cases s rule: rev_cases) (auto simp: TrimSuffix_def HasSuffix_def)

section \<open>Construction and URLs\<close>

text \<open>
  C2. A client constructed with a timeout override keeps the default timeout of 3
  seconds when the supplied timeout is below the floor of 10 milliseconds (or equal to
  it), and takes the supplied timeout when it exceeds the floor. \<^verbatim>\<open>New\<close> has no
  failing branch: it is a total function that returns a client for every input.
\<close>

theorem New_timeout_floor:
  "(sint t \<le> 10000000 \<longrightarrow>
      http_Client.Timeout
        (Client (New baseUrl token ident (Some \<lparr>Timeout = t, Transport = tr\<rparr>))) = 3000000000) \<and>
   (10000000 < sint t \<longrightarrow>
      http_Client.Timeout
        (Client (New baseUrl token ident (Some \<lparr>Timeout = t, Transport = tr\<rparr>))) = t)"
  by (simp add: New_def Let_def Millisecond_def Second_def word_sless_alt split: option.splits)

theorem New_timeout_floor_witness:
  "sint (5000000 :: Duration) \<le> 10000000 \<and>
   http_Client.Timeout (Client (New ''http://svc:8080/'' ''secret'' ''svc-a''
       (Some \<lparr>Timeout = 5000000, Transport = None\<rparr>))) = 3000000000 \<and>
   10000000 < sint (5000000000 :: Duration) \<and>
   http_Client.Timeout (Client (New ''http://svc:8080/'' ''secret'' ''svc-a''
       (Some \<lparr>Timeout = 5000000000, Transport = None\<rparr>))) = 5000000000"
  using New_timeout_floor [of 5000000 "''http://svc:8080/''" "''secret''" "''svc-a''" None]
    New_timeout_floor [of 5000000000 "''http://svc:8080/''" "''secret''" "''svc-a''" None]
  by simp

text \<open>The earlier revision has no floor: any supplied timeout replaces the default.\<close>

lemma New_part_000_timeout:
  "http_Client.Timeout
     (Client (New_part_000 baseUrl token ident (Some \<lparr>Timeout = t, Transport = tr\<rparr>))) = t"
  by (simp add: New_part_000_def Let_def split: option.splits)

text \<open>
  Construction strips one trailing slash from the base address, and the URL that
  \<^verbatim>\<open>getUrl\<close> builds for a route is the stripped base address, then \<^verbatim>\<open>/api/v1\<close>, then
  the route. The base address \<^verbatim>\<open>http://svc:8080/\<close> gives the register URL
  \<^verbatim>\<open>http://svc:8080/api/v1/register\<close>.
\<close>

lemma getUrl_of_New:
  "BaseUrl (New baseUrl token ident config) =
     (if baseUrl \<noteq> [] \<and> last baseUrl = CHR ''/'' then butlast baseUrl else baseUrl) \<and>
   getUrl (New baseUrl token ident config) r =
     BaseUrl (New baseUrl token ident config) @ ''/api/v1'' @ r \<and>
   getUrl (New ''http://svc:8080/'' token ident config) register =
     ''http://svc:8080/api/v1/register''"
  by (simp add: New_def Let_def getUrl_def apiPrefix_def register_def TrimSuffix_slash)

section \<open>Register and Deregister\<close>

text \<open>
  C1. For every address, \<^verbatim>\<open>Register\<close> encodes the registrant whose id is the client's
  identifier and whose address is the given address, and hands \<^verbatim>\<open>Do\<close> one request:
  a POST to the register URL with the auth header and that JSON object as its body.
  When the round trip gives a response, the result is an error whose text holds the
  status code in decimal if the status is 400 or more, and no error otherwise.
  (\<^verbatim>\<open>http.NewRequest\<close> is assumed to accept the URL; if it does not, nothing is sent
  and its error is returned.)
\<close>

theorem Register_sends_registrant_and_reports_status:
  assumes \<open>NewRequest_error E MethodPost (getUrl c register) = None\<close>
  shows \<open>(let req = \<lparr>Method = ''POST'', URL = BaseUrl c @ ''/api/v1/register'',
                     Header = [(''X-Registry-Token'', AuthToken c)],
                     Body = Some (''{"id":'' @ json_string E (Id c) @
                                  '',"address":'' @ json_string E address @ ''}'')\<rparr>
          in requests (snd (Register E c address w)) = requests w @ [req] \<and>
             (\<forall>resp. Do E (Client c) w req = Inr resp \<longrightarrow>
                fst (Register E c address w) =
                  (if StatusCode resp \<ge> 400
                   then Some (Error (''received non-success status code ('' @
                                     Itoa (StatusCode resp) @ '')''))
                   else None)))\<close>
  using assms
  by (auto simp: Register_def NewRequest_def addAuthHeader_def getUrl_def apiPrefix_def
      register_def authHeader_def MethodPost_def requests_append statusError_message
      json_Marshal_def split: sum.splits)

theorem Register_sends_registrant_and_reports_status_witness:
  \<open>NewRequest_error (stubEnv (Inr \<lparr>StatusCode = 500, Body = ''''\<rparr>)) MethodPost
      (getUrl svc register) = None \<and>
   requests (snd (Register (stubEnv (Inr \<lparr>StatusCode = 500, Body = ''''\<rparr>)) svc
                     ''http://10.0.0.1:9000'' [])) =
     [\<lparr>Method = ''POST'', URL = ''http://svc:8080/api/v1/register'',
       Header = [(''X-Registry-Token'', ''secret'')],
       Body = Some ''{"id":"svc-a","address":"http://10.0.0.1:9000"}''\<rparr>] \<and>
   fst (Register (stubEnv (Inr \<lparr>StatusCode = 500, Body = ''''\<rparr>)) svc
          ''http://10.0.0.1:9000'' []) =
     Some (Error ''received non-success status code (500)'')\<close>
proof -
  let ?E = "stubEnv (Inr \<lparr>StatusCode = 500, Body = ''''\<rparr>)"
  have n: "NewRequest_error ?E MethodPost (getUrl svc register) = None"
    by (simp add: stub_defs)
  show ?thesis
    using n Register_sends_registrant_and_reports_status
      [OF n, of "''http://10.0.0.1:9000''" "[]"]
    by (simp add: stub_defs Itoa_def FormatUint.simps)
qed

text \<open>
  C6. \<^verbatim>\<open>Deregister\<close> hands \<^verbatim>\<open>Do\<close> one request whose body is the JSON object with
  the client's identifier and the empty address, whatever happened before: after a
  \<^verbatim>\<open>Register\<close> with any address the request is the same, and two \<^verbatim>\<open>Deregister\<close>
  calls in a row send the same request twice. (\<^verbatim>\<open>http.NewRequest\<close> is assumed to
  accept the URL.)
\<close>

theorem Deregister_payload_is_fixed:
  assumes \<open>NewRequest_error E MethodDelete (getUrl c deregister) = None\<close>
  shows \<open>(let req = \<lparr>Method = ''DELETE'', URL = BaseUrl c @ ''/api/v1/deregister'',
                     Header = [(''X-Registry-Token'', AuthToken c)],
                     Body = Some (''{"id":'' @ json_string E (Id c) @
                                  '',"address":'' @ json_string E '''' @ ''}'')\<rparr>
          in requests (snd (Deregister E c w)) = requests w @ [req] \<and>
             requests (snd (Deregister E c (snd (Register E c address w)))) =
               requests (snd (Register E c address w)) @ [req] \<and>
             requests (snd (Deregister E c (snd (Deregister E c w)))) =
               requests w @ [req, req])\<close>
proof -
  have one: \<open>requests (snd (Deregister E c v)) =
        requests v @ [\<lparr>Method = ''DELETE'', URL = BaseUrl c @ ''/api/v1/deregister'',
                     Header = [(''X-Registry-Token'', AuthToken c)],
                     Body = Some (''{"id":'' @ json_string E (Id c) @
                                  '',"address":'' @ json_string E '''' @ ''}'')\<rparr>]\<close> for v
    using assms
    by (auto simp: Deregister_def NewRequest_def addAuthHeader_def getUrl_def apiPrefix_def
        deregister_def authHeader_def MethodDelete_def requests_append Let_def
        json_Marshal_def split: sum.splits)
  show ?thesis by (simp add: one)
qed

theorem Deregister_payload_is_fixed_witness:
  \<open>NewRequest_error (stubEnv (Inr \<lparr>StatusCode = 200, Body = ''''\<rparr>)) MethodDelete
      (getUrl svc deregister) = None \<and>
   requests (snd (Deregister (stubEnv (Inr \<lparr>StatusCode = 200, Body = ''''\<rparr>)) svc
      (snd (Register (stubEnv (Inr \<lparr>StatusCode = 200, Body = ''''\<rparr>)) svc
              ''http://10.0.0.1:9000'' [])))) =
     [\<lparr>Method = ''POST'', URL = ''http://svc:8080/api/v1/register'',
       Header = [(''X-Registry-Token'', ''secret'')],
       Body = Some ''{"id":"svc-a","address":"http://10.0.0.1:9000"}''\<rparr>,
      \<lparr>Method = ''DELETE'', URL = ''http://svc:8080/api/v1/deregister'',
       Header = [(''X-Registry-Token'', ''secret'')],
       Body = Some ''{"id":"svc-a","address":""}''\<rparr>] \<and>
   requests (snd (Deregister (stubEnv (Inr \<lparr>StatusCode = 200, Body = ''''\<rparr>)) svc
      (snd (Deregister (stubEnv (Inr \<lparr>StatusCode = 200, Body = ''''\<rparr>)) svc [])))) =
     [\<lparr>Method = ''DELETE'', URL = ''http://svc:8080/api/v1/deregister'',
       Header = [(''X-Registry-Token'', ''secret'')],
       Body = Some ''{"id":"svc-a","address":""}''\<rparr>,
      \<lparr>Method = ''DELETE'', URL = ''http://svc:8080/api/v1/deregister'',
       Header = [(''X-Registry-Token'', ''secret'')],
       Body = Some ''{"id":"svc-a","address":""}''\<rparr>]\<close>
proof -
  let ?E = "stubEnv (Inr \<lparr>StatusCode = 200, Body = ''''\<rparr>)"
  have n: "NewRequest_error ?E MethodDelete (getUrl svc deregister) = None"
    by (simp add: stub_defs)
  have r: \<open>requests (snd (Register ?E svc ''http://10.0.0.1:9000'' [])) =
     [\<lparr>Method = ''POST'', URL = ''http://svc:8080/api/v1/register'',
       Header = [(''X-Registry-Token'', ''secret'')],
       Body = Some ''{"id":"svc-a","address":"http://10.0.0.1:9000"}''\<rparr>]\<close>
    by (simp add: Register_def NewRequest_def addAuthHeader_def authHeader_def stub_defs)
  show ?thesis
    using n r Deregister_payload_is_fixed [OF n, of "[]" "''http://10.0.0.1:9000''"]
    by (simp add: stub_defs)
qed

text \<open>
  When \<^verbatim>\<open>http.NewRequest\<close> fails, \<^verbatim>\<open>Register\<close> and \<^verbatim>\<open>Deregister\<close> return its
  error and send nothing; when the round trip fails, they return its error.
\<close>

lemma Register_failures:
  "NewRequest_error E MethodPost (getUrl c register) = Some err \<Longrightarrow>
     Register E c address w = (Some err, w)"
  "NewRequest_error E MethodPost (getUrl c register) = None \<Longrightarrow>
   json_Marshal E \<lparr>Registrant.Id = Id c, Address = address\<rparr> = Inr regJson \<Longrightarrow>
   Do E (Client c) w
      (addAuthHeader c \<lparr>Method = MethodPost, URL = getUrl c register, Header = [],
                         Body = Some regJson\<rparr>) = Inl err \<Longrightarrow>
     fst (Register E c address w) = Some err"
  by (simp_all add: Register_def NewRequest_def json_Marshal_def)

lemma Deregister_failures:
  "NewRequest_error E MethodDelete (getUrl c deregister) = Some err \<Longrightarrow>
     Deregister E c w = (Some err, w)"
  "NewRequest_error E MethodDelete (getUrl c deregister) = None \<Longrightarrow>
   json_Marshal E \<lparr>Registrant.Id = Id c, Address = ''''\<rparr> = Inr regJson \<Longrightarrow>
   Do E (Client c) w
      (addAuthHeader c \<lparr>Method = MethodDelete, URL = getUrl c deregister, Header = [],
                         Body = Some regJson\<rparr>) = Inl err \<Longrightarrow>
     fst (Deregister E c w) = Some err"
  by (simp_all add: Deregister_def NewRequest_def json_Marshal_def)

section \<open>Heartbeat and the liveness loop\<close>

text \<open>
  C7. Every request that \<^verbatim>\<open>Ping\<close> hands to \<^verbatim>\<open>Do\<close> is a PUT with no body whose URL
  is the ping URL followed by \<^verbatim>\<open>?id=\<close> and the client's own identifier; it sends
  exactly one such request, or none when \<^verbatim>\<open>http.NewRequest\<close> rejects that URL.
\<close>

theorem Ping_request:
  "requests (snd (Ping E c w)) =
     requests w @
     (case NewRequest_error E ''PUT'' (BaseUrl c @ ''/api/v1/ping?id='' @ Id c) of
        Some err \<Rightarrow> []
      | None \<Rightarrow> [\<lparr>Method = ''PUT'', URL = BaseUrl c @ ''/api/v1/ping?id='' @ Id c,
                  Header = [(''X-Registry-Token'', AuthToken c)], Body = None\<rparr>])"
  by (auto simp: Ping_def NewRequest_def addAuthHeader_def getUrl_def apiPrefix_def
      ping_def authHeader_def MethodPut_def requests_append Sprintf_ping Let_def
      split: sum.splits option.splits)

theorem Ping_request_witness:
  "requests (snd (Ping (stubEnv (Inr \<lparr>StatusCode = 200, Body = ''''\<rparr>)) svc [])) =
     [\<lparr>Method = ''PUT'', URL = ''http://svc:8080/api/v1/ping?id=svc-a'',
       Header = [(''X-Registry-Token'', ''secret'')], Body = None\<rparr>]"
  using Ping_request [of "stubEnv (Inr \<lparr>StatusCode = 200, Body = ''''\<rparr>)" svc "[]"]
  by (simp add: stub_defs)

text \<open>The earlier revision's \<^verbatim>\<open>ping\<close> sends the ping URL with no identifier.\<close>

lemma ping_part_000_request:
  "requests (snd (ping_part_000 E c w)) =
     requests w @
     (case NewRequest_error E ''PUT'' (BaseUrl c @ ''/api/v1/ping'') of
        Some err \<Rightarrow> []
      | None \<Rightarrow> [\<lparr>Method = ''PUT'', URL = BaseUrl c @ ''/api/v1/ping'',
                  Header = [(''X-Registry-Token'', AuthToken c)], Body = None\<rparr>])"
  by (auto simp: ping_part_000_def NewRequest_def addAuthHeader_def getUrl_def apiPrefix_def
      ping_def authHeader_def MethodPut_def requests_append Let_def
      split: sum.splits option.splits)

subsection \<open>The loop, pass by pass\<close>

lemma pingLoop_append:
  "CtxDone \<notin> set pre \<Longrightarrow>
   pingLoop E c t (pre @ rest) w = pingLoop E c t rest (snd (snd (pingLoop E c t pre w)))"
proof (induction pre arbitrary: w)
  case Nil
  show ?case by simp
next
  case (Cons x pre)
  then show ?case by (cases x) simp_all
qed

lemma pingLoop_outcome:
  "fst (pingLoop E c t cases w) = (if CtxDone \<in> set cases then Returned else Running)"
proof (induction cases arbitrary: w)
  case Nil
  show ?case by simp
next
  case (Cons x cases)
  then show ?case by (cases x) simp_all
qed

lemma pingLoop_ticker: "fst (snd (pingLoop E c t cases w)) = t"
proof (induction cases arbitrary: w)
  case Nil
  show ?case by simp
next
  case (Cons x cases)
  then show ?case by (cases x) simp_all
qed

lemma StartPing_positive:
  "0 < sint interval \<Longrightarrow>
   StartPing E c interval cases w =
     (fst (pingLoop E c \<lparr>period = interval, stopped = False\<rparr> cases w),
      Some \<lparr>period = interval, stopped = False\<rparr>,
      snd (snd (pingLoop E c \<lparr>period = interval, stopped = False\<rparr> cases w)))"
  using pingLoop_ticker [of E c "\<lparr>period = interval, stopped = False\<rparr>" cases w]
  by (cases "pingLoop E c \<lparr>period = interval, stopped = False\<rparr> cases w")
     (simp add: StartPing_def NewTicker_def)

lemma StartPing_panics:
  "sint interval \<le> 0 \<Longrightarrow> StartPing E c interval cases w = (Panicked, None, w)"
  by (simp add: StartPing_def NewTicker_def)

text \<open>The stand-in registry answering 500: every \<^verbatim>\<open>Ping\<close> fails after its request.\<close>

lemma Ping_stub_500:
  "Ping (stubEnv (Inr \<lparr>StatusCode = 500, Body = ''''\<rparr>)) svc w =
     (Some (Error ''received non-success status code (500)''),
      w @ [DoRequest \<lparr>Method = ''PUT'', URL = ''http://svc:8080/api/v1/ping?id=svc-a'',
                      Header = [(''X-Registry-Token'', ''secret'')], Body = None\<rparr>])"
  by (simp add: Ping_def NewRequest_def addAuthHeader_def authHeader_def Sprintf_ping
      statusError_message Itoa_def FormatUint.simps stub_defs)

text \<open>
  C3. A failed heartbeat neither ends the loop nor reaches the caller. Take any run in
  which the cancellation signal has not been observed (no pass took the
  \<^verbatim>\<open>ctx.Done()\<close> case) and in which the \<^verbatim>\<open>Ping\<close> of some tick returns an error.
  Then the only trace of that error is the line the loop prints; the loop is still
  running after that tick and after any further passes; and the next tick calls
  \<^verbatim>\<open>Ping\<close> again, on the world as it then is. \<^verbatim>\<open>StartPing\<close> has no error result.
\<close>

theorem StartPing_survives_failed_heartbeat:
  assumes "0 < sint interval"
      and "CtxDone \<notin> set pre" and "CtxDone \<notin> set mid"
      and "snd (snd (StartPing E c interval pre w)) = w1"
      and "Ping E c w1 = (Some err, w1')"
      and "snd (snd (StartPing E c interval (pre @ TickC # mid) w)) = w2"
  shows "snd (snd (StartPing E c interval (pre @ [TickC]) w)) =
           w1' @ [Println (''ping error: '' @ message err)] \<and>
         fst (StartPing E c interval (pre @ TickC # mid) w) = Running \<and>
         fst (StartPing E c interval (pre @ TickC # mid @ [TickC]) w) = Running \<and>
         snd (snd (StartPing E c interval (pre @ TickC # mid @ [TickC]) w)) =
           (case Ping E c w2 of
              (Some e, w2') \<Rightarrow> w2' @ [Println (''ping error: '' @ message e)]
            | (None, w2') \<Rightarrow> w2')"
proof -
  let ?t = "\<lparr>period = interval, stopped = False\<rparr>"
  have w1: "snd (snd (pingLoop E c ?t pre w)) = w1"
    using assms(1,4) by (simp add: StartPing_positive)
  have w2: "snd (snd (pingLoop E c ?t (pre @ TickC # mid) w)) = w2"
    using assms(1,6) by (simp add: StartPing_positive)
  have a: "snd (snd (pingLoop E c ?t (pre @ [TickC]) w)) =
             w1' @ [Println (''ping error: '' @ message err)]"
    using assms(2,5) w1 by (simp add: pingLoop_append tick_def)
  have no: "CtxDone \<notin> set (pre @ TickC # mid)"
    using assms(2,3) by simp
  have "pingLoop E c ?t ((pre @ TickC # mid) @ [TickC]) w = pingLoop E c ?t [TickC] w2"
    using pingLoop_append [OF no] w2 by simp
  then have d: "snd (snd (pingLoop E c ?t (pre @ TickC # mid @ [TickC]) w)) = tick E c w2"
    by simp
  show ?thesis
    using assms(1,2,3) a d
    by (simp add: StartPing_positive pingLoop_outcome tick_def)
qed

theorem StartPing_survives_failed_heartbeat_witness:
  "0 < sint (30000000000 :: Duration) \<and>
   CtxDone \<notin> set [Default] \<and> CtxDone \<notin> set [Default, Default] \<and>
   snd (snd (StartPing (stubEnv (Inr \<lparr>StatusCode = 500, Body = ''''\<rparr>)) svc 30000000000
               [Default] [])) = [] \<and>
   Ping (stubEnv (Inr \<lparr>StatusCode = 500, Body = ''''\<rparr>)) svc [] =
     (Some (Error ''received non-success status code (500)''),
      [DoRequest \<lparr>Method = ''PUT'', URL = ''http://svc:8080/api/v1/ping?id=svc-a'',
                  Header = [(''X-Registry-Token'', ''secret'')], Body = None\<rparr>]) \<and>
   fst (StartPing (stubEnv (Inr \<lparr>StatusCode = 500, Body = ''''\<rparr>)) svc 30000000000
          ([Default] @ TickC # [Default, Default] @ [TickC]) []) = Running \<and>
   snd (snd (StartPing (stubEnv (Inr \<lparr>StatusCode = 500, Body = ''''\<rparr>)) svc 30000000000
               ([Default] @ TickC # [Default, Default] @ [TickC]) [])) =
     [DoRequest \<lparr>Method = ''PUT'', URL = ''http://svc:8080/api/v1/ping?id=svc-a'',
                 Header = [(''X-Registry-Token'', ''secret'')], Body = None\<rparr>,
      Println ''ping error: received non-success status code (500)'',
      DoRequest \<lparr>Method = ''PUT'', URL = ''http://svc:8080/api/v1/ping?id=svc-a'',
                 Header = [(''X-Registry-Token'', ''secret'')], Body = None\<rparr>,
      Println ''ping error: received non-success status code (500)'']"
proof -
  let ?E = "stubEnv (Inr \<lparr>StatusCode = 500, Body = ''''\<rparr>)"
  let ?req = "\<lparr>Method = ''PUT'', URL = ''http://svc:8080/api/v1/ping?id=svc-a'',
               Header = [(''X-Registry-Token'', ''secret'')], Body = None\<rparr>"
  have i: "0 < sint (30000000000 :: Duration)" by simp
  have p: "CtxDone \<notin> set [Default]" by simp
  have m: "CtxDone \<notin> set [Default, Default]" by simp
  have w1: "snd (snd (StartPing ?E svc 30000000000 [Default] [])) = []"
    by (simp add: StartPing_def NewTicker_def)
  have e: "Ping ?E svc [] =
      (Some (Error ''received non-success status code (500)''), [DoRequest ?req])"
    by (simp add: Ping_stub_500)
  have w2: "snd (snd (StartPing ?E svc 30000000000 ([Default] @ TickC # [Default, Default]) [])) =
      [DoRequest ?req, Println ''ping error: received non-success status code (500)'']"
    by (simp add: StartPing_def NewTicker_def tick_def Ping_stub_500)
  show ?thesis
    using i p m w1 e StartPing_survives_failed_heartbeat [OF i p m w1 e w2]
    by (simp add: Ping_stub_500)
qed

text \<open>
  C4. Once a pass takes the \<^verbatim>\<open>ctx.Done()\<close> case the loop has returned, and nothing
  that could have happened afterwards has any effect: the events of the whole run are
  those of the passes before that one, so no \<^verbatim>\<open>Ping\<close> is made after it.
\<close>

theorem StartPing_returns_on_cancellation:
  assumes "0 < sint interval" and "CtxDone \<notin> set pre"
  shows "fst (StartPing E c interval (pre @ CtxDone # post) w) = Returned \<and>
         snd (snd (StartPing E c interval (pre @ CtxDone # post) w)) =
           snd (snd (StartPing E c interval pre w))"
  using assms by (simp add: StartPing_positive pingLoop_outcome pingLoop_append)

theorem StartPing_returns_on_cancellation_witness:
  "0 < sint (30000000000 :: Duration) \<and> CtxDone \<notin> set [TickC, Default] \<and>
   fst (StartPing (stubEnv (Inr \<lparr>StatusCode = 200, Body = ''''\<rparr>)) svc 30000000000
          ([TickC, Default] @ CtxDone # [TickC, TickC]) []) = Returned \<and>
   snd (snd (StartPing (stubEnv (Inr \<lparr>StatusCode = 200, Body = ''''\<rparr>)) svc 30000000000
          ([TickC, Default] @ CtxDone # [TickC, TickC]) [])) =
     [DoRequest \<lparr>Method = ''PUT'', URL = ''http://svc:8080/api/v1/ping?id=svc-a'',
                 Header = [(''X-Registry-Token'', ''secret'')], Body = None\<rparr>]"
proof -
  let ?E = "stubEnv (Inr \<lparr>StatusCode = 200, Body = ''''\<rparr>)"
  have i: "0 < sint (30000000000 :: Duration)" by simp
  have p: "CtxDone \<notin> set [TickC, Default]" by simp
  have w: "snd (snd (StartPing ?E svc 30000000000 [TickC, Default] [])) =
     [DoRequest \<lparr>Method = ''PUT'', URL = ''http://svc:8080/api/v1/ping?id=svc-a'',
                 Header = [(''X-Registry-Token'', ''secret'')], Body = None\<rparr>]"
    by (simp add: StartPing_def NewTicker_def tick_def Ping_def NewRequest_def
        addAuthHeader_def authHeader_def Sprintf_ping stub_defs)
  show ?thesis
    using i p w StartPing_returns_on_cancellation [OF i p, of ?E svc "[TickC, TickC]" "[]"]
    by simp
qed

text \<open>
  C5, as the code has it. The loop has one exit, the \<^verbatim>\<open>ctx.Done()\<close> case, and it
  never calls \<^verbatim>\<open>Stop\<close> on the ticker it created: whenever \<^verbatim>\<open>StartPing\<close> has a
  ticker, after any passes and also when it has returned, that ticker is not stopped.
\<close>

theorem StartPing_never_stops_ticker:
  assumes "StartPing E c interval cases w = (out, Some t, w')"
  shows "stopped t = False \<and> (out = Returned \<longleftrightarrow> CtxDone \<in> set cases)"
proof (cases "0 < sint interval")
  case True
  then show ?thesis
    using assms by (auto simp: StartPing_positive pingLoop_outcome split: if_splits)
next
  case False
  then show ?thesis
    using assms by (simp add: StartPing_panics)
qed

text \<open>
  The claim that the ticker is released before the loop returns fails on a run that is
  cancelled at once: the loop returns and the ticker is still running.
\<close>

theorem StartPing_ticker_counterexample:
  "StartPing (stubEnv (Inr \<lparr>StatusCode = 200, Body = ''''\<rparr>)) svc 30000000000 [CtxDone] [] =
     (Returned, Some \<lparr>period = 30000000000, stopped = False\<rparr>, [])"
  by (simp add: StartPing_def NewTicker_def)

theorem StartPing_never_stops_ticker_witness:
  "StartPing (stubEnv (Inr \<lparr>StatusCode = 200, Body = ''''\<rparr>)) svc 30000000000
       [Default, CtxDone] [] =
     (Returned, Some \<lparr>period = 30000000000, stopped = False\<rparr>, []) \<and>
   stopped \<lparr>period = 30000000000, stopped = False\<rparr> = False \<and> CtxDone \<in> set [Default, CtxDone]"
proof -
  have r: "StartPing (stubEnv (Inr \<lparr>StatusCode = 200, Body = ''''\<rparr>)) svc 30000000000
       [Default, CtxDone] [] = (Returned, Some \<lparr>period = 30000000000, stopped = False\<rparr>, [])"
    by (simp add: StartPing_def NewTicker_def)
  show ?thesis
    using r StartPing_never_stops_ticker [OF r] by simp
qed

subsection \<open>The requests of a whole run\<close>

text \<open>
  When \<^verbatim>\<open>http.NewRequest\<close> accepts the ping URL, every tick hands \<^verbatim>\<open>Do\<close> one ping
  request, whatever the round trips answer, and the loop sends one request for each
  tick before the first pass that takes the \<^verbatim>\<open>ctx.Done()\<close> case, and no other.
\<close>

lemma tick_requests:
  assumes "NewRequest_error E MethodPut (getUrl c ping @ ''?id='' @ Id c) = None"
  shows "requests (tick E c w) =
           requests w @ [addAuthHeader c \<lparr>Method = MethodPut,
                           URL = getUrl c ping @ ''?id='' @ Id c, Header = [], Body = None\<rparr>]"
  using assms
  by (auto simp: tick_def Ping_def NewRequest_def Sprintf_ping Let_def requests_append
      split: sum.splits)

lemma pingLoop_requests:
  assumes "NewRequest_error E MethodPut (getUrl c ping @ ''?id='' @ Id c) = None"
  shows "requests (snd (snd (pingLoop E c t cases w))) =
           requests w @
           replicate (length (filter (\<lambda>x. x = TickC) (takeWhile (\<lambda>x. x \<noteq> CtxDone) cases)))
             (addAuthHeader c \<lparr>Method = MethodPut,
                URL = getUrl c ping @ ''?id='' @ Id c, Header = [], Body = None\<rparr>)"
proof (induction cases arbitrary: w)
  case Nil
  show ?case by simp
next
  case (Cons x cases)
  show ?case
  proof (cases x)
    case CtxDone
    then show ?thesis by simp
  next
    case TickC
    then show ?thesis
      using Cons.IH [of "tick E c w"] tick_requests [OF assms, of w]
      by (simp add: replicate_append_same)
  next
    case Default
    then show ?thesis
      using Cons.IH [of w] by simp
  qed
qed

lemma StartPing_requests:
  assumes "0 < sint interval"
      and "NewRequest_error E MethodPut (getUrl c ping @ ''?id='' @ Id c) = None"
  shows "requests (snd (snd (StartPing E c interval cases w))) =
           requests w @
           replicate (length (filter (\<lambda>x. x = TickC) (takeWhile (\<lambda>x. x \<noteq> CtxDone) cases)))
             \<lparr>Method = ''PUT'', URL = BaseUrl c @ ''/api/v1/ping?id='' @ Id c,
              Header = [(''X-Registry-Token'', AuthToken c)], Body = None\<rparr>"
  using assms(1) pingLoop_requests [OF assms(2)]
  by (simp add: StartPing_positive addAuthHeader_def authHeader_def MethodPut_def
      getUrl_def apiPrefix_def ping_def)

section \<open>The status code in the error text\<close>

text \<open>
  The decimal text determines the number, so the error built from a status code tells
  that code and no other.
\<close>

lemma digit_inj:
  "i < 10 \<Longrightarrow> j < 10 \<Longrightarrow> ''0123456789'' ! i = ''0123456789'' ! j \<Longrightarrow> i = j"
  by (simp add: nth_eq_iff_index_eq)

lemma digit_not_minus: "i < 10 \<Longrightarrow> ''0123456789'' ! i \<noteq> CHR ''-''"
proof -
  assume "i < 10"
  then have "''0123456789'' ! i \<in> set ''0123456789''"
    by (intro nth_mem) simp
  then show ?thesis by auto
qed

lemma FormatUint_nonempty: "FormatUint n \<noteq> []"
  by (subst FormatUint.simps) simp

lemma FormatUint_inj: "FormatUint a = FormatUint b \<Longrightarrow> a = b"
proof (induction a arbitrary: b rule: FormatUint.induct)
  case (1 n)
  show ?case
  proof (cases "n < 10")
    case small: True
    show ?thesis
    proof (cases "b < 10")
      case True
      with small "1.prems" show ?thesis
        by (simp add: FormatUint.simps [of n] FormatUint.simps [of b] digit_inj)
    next
      case False
      with small "1.prems" FormatUint_nonempty [of "b div 10"] show ?thesis
        by (simp add: FormatUint.simps [of n] FormatUint.simps [of b])
    qed
  next
    case big: False
    show ?thesis
    proof (cases "b < 10")
      case True
      with big "1.prems" FormatUint_nonempty [of "n div 10"] show ?thesis
        by (simp add: FormatUint.simps [of n] FormatUint.simps [of b])
    next
      case False
      with big "1.prems" have eq: "FormatUint (n div 10) = FormatUint (b div 10)"
        and dg: "''0123456789'' ! (n mod 10) = ''0123456789'' ! (b mod 10)"
        by (simp_all add: FormatUint.simps [of n] FormatUint.simps [of b])
      from "1.IH" [OF big eq] have "n div 10 = b div 10" .
      moreover from dg have "n mod 10 = b mod 10"
        by (intro digit_inj) simp_all
      ultimately show ?thesis
        by (metis div_mult_mod_eq)
    qed
  qed
qed

lemma FormatUint_hd: "hd (FormatUint n) \<noteq> CHR ''-''"
proof (induction n rule: FormatUint.induct)
  case (1 n)
  show ?case
  proof (cases "n < 10")
    case True
    then show ?thesis
      using digit_not_minus [of n] by (simp add: FormatUint.simps [of n])
  next
    case False
    then show ?thesis
      using "1.IH" FormatUint_nonempty [of "n div 10"]
      by (simp add: FormatUint.simps [of n])
  qed
qed

lemma Itoa_inj: "Itoa a = Itoa b \<Longrightarrow> a = b"
proof -
  assume eq: "Itoa a = Itoa b"
  have neg: "CHR ''-'' # FormatUint x \<noteq> FormatUint y" for x y
    using FormatUint_hd [of y] by (metis list.sel(1))
  show ?thesis
  proof (cases "a < 0"; cases "b < 0")
    assume "a < 0" "b < 0"
    with eq have "nat (- a) = nat (- b)"
      by (simp add: Itoa_def FormatUint_inj)
    with \<open>a < 0\<close> \<open>b < 0\<close> show ?thesis by simp
  next
    assume "a < 0" "\<not> b < 0"
    with eq neg show ?thesis by (simp add: Itoa_def)
  next
    assume "\<not> a < 0" "b < 0"
    with eq neg [of "nat (- b)" "nat a"] show ?thesis by (simp add: Itoa_def)
  next
    assume "\<not> a < 0" "\<not> b < 0"
    with eq have "nat a = nat b"
      by (simp add: Itoa_def FormatUint_inj)
    with \<open>\<not> a < 0\<close> \<open>\<not> b < 0\<close> show ?thesis by simp
  qed
qed

lemma statusError_inj: "statusError E a = statusError E b \<Longrightarrow> a = b"
  by (simp add: statusError_message Itoa_inj)

section \<open>Query\<close>

text \<open>The three formats of \<^verbatim>\<open>Query\<close>'s errors put their operand after a fixed text.\<close>

lemma Errorf_create: "Errorf E ''could not create request: %s'' [StringArg m] =
    Error (''could not create request: '' @ m)"
  by (simp add: Errorf_def Sprintf_def isLetter_def extraArgs_def)

lemma Errorf_execute: "Errorf E ''could not execute query request: %s'' [StringArg m] =
    Error (''could not execute query request: '' @ m)"
  by (simp add: Errorf_def Sprintf_def isLetter_def extraArgs_def)

lemma Errorf_decode: "Errorf E ''could not decode JSON: %s'' [StringArg m] =
    Error (''could not decode JSON: '' @ m)"
  by (simp add: Errorf_def Sprintf_def isLetter_def extraArgs_def)

text \<open>
  Each failing stage of \<^verbatim>\<open>Query\<close> gives the error of its own kind, with the text of
  the underlying error after the stage's text.
\<close>

lemma Query_error_kinds:
  "snd (fst (Query E c ident w)) =
     (case NewRequest_error E ''GET'' (Sprintf E (getUrl c query) [StringArg ident]) of
        Some err \<Rightarrow> Some (Error (''could not create request: '' @ message err))
      | None \<Rightarrow>
          (case Do E (Client c) w
                  \<lparr>Method = ''GET'', URL = Sprintf E (getUrl c query) [StringArg ident],
                   Header = [(''X-Registry-Token'', AuthToken c)], Body = None\<rparr> of
             Inl err \<Rightarrow> Some (Error (''could not execute query request: '' @ message err))
           | Inr resp \<Rightarrow>
               (case snd (json_Decode E (Response.Body resp) zeroRegistrant) of
                  Some err \<Rightarrow> Some (Error (''could not decode JSON: '' @ message err))
                | None \<Rightarrow> None)))"
  by (auto simp: Query_def NewRequest_def addAuthHeader_def authHeader_def MethodGet_def
      Let_def Errorf_create Errorf_execute Errorf_decode
      split: sum.splits option.splits prod.splits)

text \<open>The three kinds cannot be confused, whatever the underlying errors say.\<close>

lemma Query_error_kinds_distinct:
  "''could not create request: '' @ m1 \<noteq> ''could not execute query request: '' @ m2"
  "''could not create request: '' @ m1 \<noteq> ''could not decode JSON: '' @ m3"
  "''could not execute query request: '' @ m2 \<noteq> ''could not decode JSON: '' @ m3"
  by simp_all

text \<open>
  When the base address has no percent sign, the URL of \<^verbatim>\<open>Query\<close> is the query URL
  with the identifier passed as argument in the place of \<^verbatim>\<open>%s\<close>.
\<close>

lemma Query_url_plain:
  assumes "CHR ''%'' \<notin> set (BaseUrl c)"
  shows "Sprintf E (getUrl c query) [StringArg ident] = BaseUrl c @ ''/api/v1/query?id='' @ ident"
proof -
  have "CHR ''%'' \<notin> set (BaseUrl c @ ''/api/v1/query?id='')"
    using assms by simp
  then have "doPrintf (fmt_other E) ((BaseUrl c @ ''/api/v1/query?id='') @ ''%s'') [StringArg ident] =
      (BaseUrl c @ ''/api/v1/query?id='') @ doPrintf (fmt_other E) ''%s'' [StringArg ident]"
    by (rule doPrintf_plain)
  then show ?thesis
    by (simp add: Sprintf_def getUrl_def apiPrefix_def query_def isLetter_def extraArgs_def)
qed

text \<open>
  C8, where the code departs from it. The format string of \<^verbatim>\<open>Query\<close>'s
  \<^verbatim>\<open>Sprintf\<close> is the whole URL, so a percent sign in the base address is read as a
  directive. With the base address \<^verbatim>\<open>http://h/caf%C3%A9\<close> and the identifier
  \<^verbatim>\<open>svc-b\<close>, the identifier is used up by \<^verbatim>\<open>%C\<close>, the route's \<^verbatim>\<open>%s\<close> finds no
  operand, and the URL given to \<^verbatim>\<open>http.NewRequest\<close> is not the query URL for
  \<^verbatim>\<open>svc-b\<close>: the only request \<^verbatim>\<open>Query\<close> can send there is the one below.
\<close>

theorem Query_url_percent_in_base:
  "requests (snd (Query E (New ''http://h/caf%C3%A9'' token ident None) ''svc-b'' w)) =
     requests w @
     (case NewRequest_error E ''GET''
             ''http://h/caf%!C(string=svc-b)3%!A(MISSING)9/api/v1/query?id=%!s(MISSING)'' of
        Some err \<Rightarrow> []
      | None \<Rightarrow>
          [\<lparr>Method = ''GET'',
            URL = ''http://h/caf%!C(string=svc-b)3%!A(MISSING)9/api/v1/query?id=%!s(MISSING)'',
            Header = [(''X-Registry-Token'', token)], Body = None\<rparr>])"
proof -
  have url: "Sprintf E (getUrl (New ''http://h/caf%C3%A9'' token ident None) query)
        [StringArg ''svc-b''] =
      ''http://h/caf%!C(string=svc-b)3%!A(MISSING)9/api/v1/query?id=%!s(MISSING)''"
    by (simp add: Sprintf_def isLetter_def extraArgs_def badVerb_def missingArg_def
        New_def Let_def TrimSuffix_def HasSuffix_def getUrl_def apiPrefix_def query_def)
  show ?thesis
    unfolding Query_def NewRequest_def url
    by (auto simp: addAuthHeader_def authHeader_def MethodGet_def New_def Let_def
        requests_append split: sum.splits option.splits prod.splits)
qed

text \<open>
  The URLs of the requests themselves. \<^verbatim>\<open>Register\<close> and \<^verbatim>\<open>Deregister\<close> send the URL
  that \<^verbatim>\<open>getUrl\<close> builds as it is, \<^verbatim>\<open>Ping\<close> sends it with \<^verbatim>\<open>?id=\<close> and the
  client's identifier after it, and \<^verbatim>\<open>Query\<close> sends the query URL for the identifier
  it is given when the base address has no percent sign.
\<close>

lemma request_urls:
  "map URL (requests (snd (Register E c address w))) =
     map URL (requests w) @
     (case NewRequest_error E MethodPost (getUrl c register) of
        Some err \<Rightarrow> [] | None \<Rightarrow> [BaseUrl c @ ''/api/v1/register''])"
  "map URL (requests (snd (Deregister E c w))) =
     map URL (requests w) @
     (case NewRequest_error E MethodDelete (getUrl c deregister) of
        Some err \<Rightarrow> [] | None \<Rightarrow> [BaseUrl c @ ''/api/v1/deregister''])"
  "map URL (requests (snd (Ping E c w))) =
     map URL (requests w) @
     (case NewRequest_error E MethodPut (getUrl c ping @ ''?id='' @ Id c) of
        Some err \<Rightarrow> [] | None \<Rightarrow> [BaseUrl c @ ''/api/v1/ping?id='' @ Id c])"
  "CHR ''%'' \<notin> set (BaseUrl c) \<Longrightarrow>
   map URL (requests (snd (Query E c ident w))) =
     map URL (requests w) @
     (case NewRequest_error E MethodGet (getUrl c ''/query?id='' @ ident) of
        Some err \<Rightarrow> [] | None \<Rightarrow> [BaseUrl c @ ''/api/v1/query?id='' @ ident])"
proof -
  show "map URL (requests (snd (Register E c address w))) =
     map URL (requests w) @
     (case NewRequest_error E MethodPost (getUrl c register) of
        Some err \<Rightarrow> [] | None \<Rightarrow> [BaseUrl c @ ''/api/v1/register''])"
    by (auto simp: Register_def NewRequest_def addAuthHeader_def getUrl_def apiPrefix_def
        register_def requests_append json_Marshal_def Let_def
        split: sum.splits option.splits)
  show "map URL (requests (snd (Deregister E c w))) =
     map URL (requests w) @
     (case NewRequest_error E MethodDelete (getUrl c deregister) of
        Some err \<Rightarrow> [] | None \<Rightarrow> [BaseUrl c @ ''/api/v1/deregister''])"
    by (auto simp: Deregister_def NewRequest_def addAuthHeader_def getUrl_def apiPrefix_def
        deregister_def requests_append json_Marshal_def Let_def
        split: sum.splits option.splits)
  show "map URL (requests (snd (Ping E c w))) =
     map URL (requests w) @
     (case NewRequest_error E MethodPut (getUrl c ping @ ''?id='' @ Id c) of
        Some err \<Rightarrow> [] | None \<Rightarrow> [BaseUrl c @ ''/api/v1/ping?id='' @ Id c])"
    by (auto simp: Ping_def NewRequest_def addAuthHeader_def getUrl_def apiPrefix_def
        ping_def requests_append Sprintf_ping Let_def
        split: sum.splits option.splits)
  assume plain: "CHR ''%'' \<notin> set (BaseUrl c)"
  have url: "Sprintf E (getUrl c query) [StringArg ident] = getUrl c ''/query?id='' @ ident"
    using Query_url_plain [OF plain, of E ident] by (simp add: getUrl_def apiPrefix_def)
  show "map URL (requests (snd (Query E c ident w))) =
     map URL (requests w) @
     (case NewRequest_error E MethodGet (getUrl c ''/query?id='' @ ident) of
        Some err \<Rightarrow> [] | None \<Rightarrow> [BaseUrl c @ ''/api/v1/query?id='' @ ident])"
    unfolding Query_def NewRequest_def url
    by (auto simp: addAuthHeader_def getUrl_def apiPrefix_def requests_append Let_def
        split: sum.splits option.splits prod.splits)
qed

text \<open>
  C9, where the code departs from it. For every base address construction strips one
  trailing slash, and \<^verbatim>\<open>getUrl\<close> puts the stripped base address, the prefix and the
  route together (\<open>getUrl_of_New\<close>, \<open>request_urls\<close>). But the request of \<^verbatim>\<open>Query\<close>
  does not keep that URL when the base address has a percent sign. With the base
  address \<^verbatim>\<open>http://h/%s/\<close>, stripped to \<^verbatim>\<open>http://h/%s\<close>, and the identifier
  \<^verbatim>\<open>svc-b\<close>, the only request \<^verbatim>\<open>Query\<close> can send goes to
  \<^verbatim>\<open>http://h/svc-b/api/v1/query?id=%!s(MISSING)\<close>, which does not begin with the
  stripped base address.
\<close>

theorem Query_request_url_leaves_base:
  "BaseUrl (New ''http://h/%s/'' token ident None) = ''http://h/%s'' \<and>
   requests (snd (Query E (New ''http://h/%s/'' token ident None) ''svc-b'' w)) =
     requests w @
     (case NewRequest_error E ''GET'' ''http://h/svc-b/api/v1/query?id=%!s(MISSING)'' of
        Some err \<Rightarrow> []
      | None \<Rightarrow>
          [\<lparr>Method = ''GET'', URL = ''http://h/svc-b/api/v1/query?id=%!s(MISSING)'',
            Header = [(''X-Registry-Token'', token)], Body = None\<rparr>]) \<and>
   take (length ''http://h/%s'') ''http://h/svc-b/api/v1/query?id=%!s(MISSING)'' \<noteq>
     ''http://h/%s''"
proof -
  have base: "BaseUrl (New ''http://h/%s/'' token ident None) = ''http://h/%s''"
    by (simp add: New_def Let_def TrimSuffix_def HasSuffix_def)
  have url: "Sprintf E (getUrl (New ''http://h/%s/'' token ident None) query)
        [StringArg ''svc-b''] = ''http://h/svc-b/api/v1/query?id=%!s(MISSING)''"
    by (simp add: Sprintf_def isLetter_def extraArgs_def missingArg_def
        New_def Let_def TrimSuffix_def HasSuffix_def getUrl_def apiPrefix_def query_def)
  have req: "requests (snd (Query E (New ''http://h/%s/'' token ident None) ''svc-b'' w)) =
     requests w @
     (case NewRequest_error E ''GET'' ''http://h/svc-b/api/v1/query?id=%!s(MISSING)'' of
        Some err \<Rightarrow> []
      | None \<Rightarrow>
          [\<lparr>Method = ''GET'', URL = ''http://h/svc-b/api/v1/query?id=%!s(MISSING)'',
            Header = [(''X-Registry-Token'', token)], Body = None\<rparr>])"
    unfolding Query_def NewRequest_def url
    by (auto simp: addAuthHeader_def authHeader_def MethodGet_def New_def Let_def
        requests_append split: sum.splits option.splits prod.splits)
  show ?thesis
    using base req by simp
qed

text \<open>
  C10. Whenever \<^verbatim>\<open>Query\<close> returns an error, at whichever stage, the registrant it
  returns with it is the zero value: empty identifier and empty address, also when the
  decoder had already written into the entry before it failed.
\<close>

theorem Query_error_returns_zero_Registrant:
  assumes "snd (fst (Query E c ident w)) \<noteq> None"
  shows "fst (fst (Query E c ident w)) = \<lparr>Registrant.Id = '''', Address = ''''\<rparr>"
  using assms
  by (auto simp: Query_def zeroRegistrant_def Let_def
      split: sum.splits prod.splits option.splits)

theorem Query_error_returns_zero_Registrant_witness:
  \<open>snd (fst (Query (stubEnv (Inr \<lparr>StatusCode = 200, Body = ''{"id":"svc","address":5}''\<rparr>))
              svc ''svc'' [])) \<noteq> None \<and>
   json_Decode (stubEnv (Inr \<lparr>StatusCode = 200, Body = ''{"id":"svc","address":5}''\<rparr>))
       ''{"id":"svc","address":5}'' zeroRegistrant =
     (\<lparr>Registrant.Id = ''svc'', Address = ''''\<rparr>,
      Some (Error (''json: cannot unmarshal number into Go struct field '' @
                   ''Registrant.address of type string''))) \<and>
   Query (stubEnv (Inr \<lparr>StatusCode = 200, Body = ''{"id":"svc","address":5}''\<rparr>))
       svc ''svc'' [] =
     ((\<lparr>Registrant.Id = '''', Address = ''''\<rparr>,
       Some (Error (''could not decode JSON: json: cannot unmarshal number into Go '' @
                    ''struct field Registrant.address of type string''))),
      [DoRequest \<lparr>Method = ''GET'', URL = ''http://svc:8080/api/v1/query?id=svc'',
                  Header = [(''X-Registry-Token'', ''secret'')], Body = None\<rparr>,
       BodyClosed])\<close>
proof -
  let ?E = \<open>stubEnv (Inr \<lparr>StatusCode = 200, Body = ''{"id":"svc","address":5}''\<rparr>)\<close>
  have q: "Query ?E svc ''svc'' [] =
     ((zeroRegistrant,
       Some (Error (''could not decode JSON: json: cannot unmarshal number into Go '' @
                    ''struct field Registrant.address of type string''))),
      [DoRequest \<lparr>Method = ''GET'', URL = ''http://svc:8080/api/v1/query?id=svc'',
                  Header = [(''X-Registry-Token'', ''secret'')], Body = None\<rparr>,
       BodyClosed])"
    by (simp add: Query_def NewRequest_def addAuthHeader_def authHeader_def Errorf_decode
        Sprintf_def isLetter_def extraArgs_def zeroRegistrant_def stub_defs)
  have e: "snd (fst (Query ?E svc ''svc'' [])) \<noteq> None"
    by (simp add: q)
  show ?thesis
    using e q Query_error_returns_zero_Registrant [OF e]
    by (simp add: zeroRegistrant_def stub_defs)
qed

end
